theory Spec2Isabelle
  imports Main "HOL-Library.Word" "HOL-Library.Signed_Division"
begin

unbundle bit_operations_syntax

section \<open>Data model of main.go\<close>

text \<open>
  Go's fixed-width integers are words: \<open>uint8\<close> is \<open>8 word\<close>, \<open>int16\<close> is
  \<open>16 word\<close>, \<open>int32\<close> is \<open>32 word\<close>, \<open>int64\<close> is \<open>64 word\<close>. Signed types are read
  with \<open>sint\<close> and compared with \<open>word_sless\<close> / \<open>word_sle\<close>; a widening conversion of a
  signed value is \<open>scast\<close>, of an unsigned value \<open>ucast\<close>. Go's \<open>int\<close> (the program
  counter) is taken to be 64 bits wide.
\<close>

type_synonym byte = "8 word"
type_synonym int16 = "16 word"
type_synonym int32 = "32 word"
type_synonym int64 = "64 word"

text \<open>The \<open>Instruction\<close> struct.\<close>

record Instruction =
  Opcode :: byte
  Dst :: byte
  Src :: byte
  Offset :: int16
  Imm :: int32

text \<open>
  The \<open>State\<close> struct. \<open>Regs\<close> is the array \<open>[11]int64\<close>, held as a list that every
  operation keeps at length 11; \<open>Memory\<close> is the byte slice.
\<close>

record State =
  Memory :: "byte list"
  Regs :: "int64 list"
  PC :: int64

text \<open>
  The error values the source creates with \<open>errors.New\<close>: \<open>"exit"\<close>,
  \<open>"unsupported opcode"\<close> and \<open>"memory access out of bounds"\<close>.
\<close>

datatype err = Exit | UnsupportedOpcode | MemoryAccessOutOfBounds

text \<open>
  The run-time panics of Go that the source can raise: an index outside an array or
  slice, a slice expression with bad bounds, and an integer division by zero. A panic is
  not an \<open>error\<close> value: it unwinds through \<open>Execute\<close> and \<open>Interpret\<close>, and nothing
  after it runs.
\<close>

datatype panic = IndexOutOfRange | SliceBoundsOutOfRange | IntegerDivideByZero

datatype 'a result = Panic panic | Ret 'a

text \<open>\<open>State{}\<close>: a nil memory slice, eleven zero registers, program counter 0.\<close>

definition zeroState :: State where
  "zeroState = \<lparr>Memory = [], Regs = [0, 0, 0, 0, 0, 0, 0, 0, 0, 0, 0], PC = 0\<rparr>"

definition MemorySize :: nat where
  "MemorySize = 65536"

text \<open>\<open>NewState\<close>: as \<open>State{}\<close>, with a zeroed memory of \<open>MemorySize\<close> bytes.\<close>

definition NewState :: State where
  "NewState = zeroState\<lparr>Memory := replicate MemorySize 0\<rparr>"

text \<open>
  The invariant of a \<open>State\<close> value that Go's types give: the register array has eleven
  entries, and the length of a slice fits a (64-bit) \<open>int\<close>.
\<close>

definition wf_State :: "State \<Rightarrow> bool" where
  "wf_State s \<longleftrightarrow> length (Regs s) = 11 \<and> length (Memory s) < 2 ^ 63"

section \<open>Opcodes\<close>

abbreviation (input) ALU64_ADD_IMM :: byte where "ALU64_ADD_IMM \<equiv> 0x07"
abbreviation (input) ALU64_ADD_REG :: byte where "ALU64_ADD_REG \<equiv> 0x0f"
abbreviation (input) ALU64_SUB_IMM :: byte where "ALU64_SUB_IMM \<equiv> 0x17"
abbreviation (input) ALU64_SUB_REG :: byte where "ALU64_SUB_REG \<equiv> 0x1f"
abbreviation (input) ALU64_MUL_IMM :: byte where "ALU64_MUL_IMM \<equiv> 0x27"
abbreviation (input) ALU64_MUL_REG :: byte where "ALU64_MUL_REG \<equiv> 0x2f"
abbreviation (input) ALU64_DIV_IMM :: byte where "ALU64_DIV_IMM \<equiv> 0x37"
abbreviation (input) ALU64_DIV_REG :: byte where "ALU64_DIV_REG \<equiv> 0x3f"
abbreviation (input) ALU64_OR_IMM :: byte where "ALU64_OR_IMM \<equiv> 0x47"
abbreviation (input) ALU64_OR_REG :: byte where "ALU64_OR_REG \<equiv> 0x4f"
abbreviation (input) ALU64_AND_IMM :: byte where "ALU64_AND_IMM \<equiv> 0x57"
abbreviation (input) ALU64_AND_REG :: byte where "ALU64_AND_REG \<equiv> 0x5f"
abbreviation (input) ALU64_LSH_IMM :: byte where "ALU64_LSH_IMM \<equiv> 0x67"
abbreviation (input) ALU64_LSH_REG :: byte where "ALU64_LSH_REG \<equiv> 0x6f"
abbreviation (input) ALU64_RSH_IMM :: byte where "ALU64_RSH_IMM \<equiv> 0x77"
abbreviation (input) ALU64_RSH_REG :: byte where "ALU64_RSH_REG \<equiv> 0x7f"
abbreviation (input) ALU64_NEG :: byte where "ALU64_NEG \<equiv> 0x87"
abbreviation (input) ALU64_MOD_IMM :: byte where "ALU64_MOD_IMM \<equiv> 0x97"
abbreviation (input) ALU64_MOD_REG :: byte where "ALU64_MOD_REG \<equiv> 0x9f"
abbreviation (input) ALU64_XOR_IMM :: byte where "ALU64_XOR_IMM \<equiv> 0xa7"
abbreviation (input) ALU64_XOR_REG :: byte where "ALU64_XOR_REG \<equiv> 0xaf"
abbreviation (input) ALU64_MOV_IMM :: byte where "ALU64_MOV_IMM \<equiv> 0xb7"
abbreviation (input) ALU64_MOV_REG :: byte where "ALU64_MOV_REG \<equiv> 0xbf"
abbreviation (input) ALU64_ARSH_IMM :: byte where "ALU64_ARSH_IMM \<equiv> 0xc7"
abbreviation (input) ALU64_ARSH_REG :: byte where "ALU64_ARSH_REG \<equiv> 0xcf"

abbreviation (input) MEM_LDDW :: byte where "MEM_LDDW \<equiv> 0x18"
abbreviation (input) MEM_LDXW :: byte where "MEM_LDXW \<equiv> 0x61"
abbreviation (input) MEM_LDXH :: byte where "MEM_LDXH \<equiv> 0x69"
abbreviation (input) MEM_LDXB :: byte where "MEM_LDXB \<equiv> 0x71"
abbreviation (input) MEM_LDXDW :: byte where "MEM_LDXDW \<equiv> 0x79"
abbreviation (input) MEM_STW :: byte where "MEM_STW \<equiv> 0x62"
abbreviation (input) MEM_STH :: byte where "MEM_STH \<equiv> 0x6a"
abbreviation (input) MEM_STB :: byte where "MEM_STB \<equiv> 0x72"
abbreviation (input) MEM_STDW :: byte where "MEM_STDW \<equiv> 0x7a"
abbreviation (input) MEM_STXW :: byte where "MEM_STXW \<equiv> 0x63"
abbreviation (input) MEM_STXH :: byte where "MEM_STXH \<equiv> 0x6b"
abbreviation (input) MEM_STXB :: byte where "MEM_STXB \<equiv> 0x73"
abbreviation (input) MEM_STXDW :: byte where "MEM_STXDW \<equiv> 0x7b"

abbreviation (input) BRANCH_JA :: byte where "BRANCH_JA \<equiv> 0x05"
abbreviation (input) BRANCH_JEQ_IMM :: byte where "BRANCH_JEQ_IMM \<equiv> 0x15"
abbreviation (input) BRANCH_JEQ_REG :: byte where "BRANCH_JEQ_REG \<equiv> 0x1d"
abbreviation (input) BRANCH_JGT_IMM :: byte where "BRANCH_JGT_IMM \<equiv> 0x25"
abbreviation (input) BRANCH_JGT_REG :: byte where "BRANCH_JGT_REG \<equiv> 0x2d"
abbreviation (input) BRANCH_JGE_IMM :: byte where "BRANCH_JGE_IMM \<equiv> 0x35"
abbreviation (input) BRANCH_JGE_REG :: byte where "BRANCH_JGE_REG \<equiv> 0x3d"
abbreviation (input) BRANCH_JLT_IMM :: byte where "BRANCH_JLT_IMM \<equiv> 0xa5"
abbreviation (input) BRANCH_JLT_REG :: byte where "BRANCH_JLT_REG \<equiv> 0xad"
abbreviation (input) BRANCH_JLE_IMM :: byte where "BRANCH_JLE_IMM \<equiv> 0xb5"
abbreviation (input) BRANCH_JLE_REG :: byte where "BRANCH_JLE_REG \<equiv> 0xbd"
abbreviation (input) BRANCH_JSET_IMM :: byte where "BRANCH_JSET_IMM \<equiv> 0x45"
abbreviation (input) BRANCH_JSET_REG :: byte where "BRANCH_JSET_REG \<equiv> 0x4d"
abbreviation (input) BRANCH_JNE_IMM :: byte where "BRANCH_JNE_IMM \<equiv> 0x55"
abbreviation (input) BRANCH_JNE_REG :: byte where "BRANCH_JNE_REG \<equiv> 0x5d"
abbreviation (input) BRANCH_JSGT_IMM :: byte where "BRANCH_JSGT_IMM \<equiv> 0x65"
abbreviation (input) BRANCH_JSGT_REG :: byte where "BRANCH_JSGT_REG \<equiv> 0x6d"
abbreviation (input) BRANCH_JSGE_IMM :: byte where "BRANCH_JSGE_IMM \<equiv> 0x75"
abbreviation (input) BRANCH_JSGE_REG :: byte where "BRANCH_JSGE_REG \<equiv> 0x7d"
abbreviation (input) BRANCH_JSLT_IMM :: byte where "BRANCH_JSLT_IMM \<equiv> 0xc5"
abbreviation (input) BRANCH_JSLT_REG :: byte where "BRANCH_JSLT_REG \<equiv> 0xcd"
abbreviation (input) BRANCH_JSLE_IMM :: byte where "BRANCH_JSLE_IMM \<equiv> 0xd5"
abbreviation (input) BRANCH_JSLE_REG :: byte where "BRANCH_JSLE_REG \<equiv> 0xdd"
abbreviation (input) BRANCH_CALL :: byte where "BRANCH_CALL \<equiv> 0x85"
abbreviation (input) BRANCH_EXIT :: byte where "BRANCH_EXIT \<equiv> 0x95"

section \<open>Memory helpers\<close>

text \<open>
  \<open>binary.LittleEndian\<close> of Go's standard library, on the bytes of \<open>b\<close> from index \<open>a\<close>:
  \<open>PutUintN\<close> writes the value least significant byte first, \<open>UintN\<close> reads it back.
\<close>

definition PutUint16 :: "byte list \<Rightarrow> nat \<Rightarrow> 16 word \<Rightarrow> byte list" where
  "PutUint16 b a v = b[a := ucast v, a + 1 := ucast (drop_bit 8 v)]"

definition PutUint32 :: "byte list \<Rightarrow> nat \<Rightarrow> 32 word \<Rightarrow> byte list" where
  "PutUint32 b a v = b[a := ucast v, a + 1 := ucast (drop_bit 8 v),
     a + 2 := ucast (drop_bit 16 v), a + 3 := ucast (drop_bit 24 v)]"

definition PutUint64 :: "byte list \<Rightarrow> nat \<Rightarrow> 64 word \<Rightarrow> byte list" where
  "PutUint64 b a v = b[a := ucast v, a + 1 := ucast (drop_bit 8 v),
     a + 2 := ucast (drop_bit 16 v), a + 3 := ucast (drop_bit 24 v),
     a + 4 := ucast (drop_bit 32 v), a + 5 := ucast (drop_bit 40 v),
     a + 6 := ucast (drop_bit 48 v), a + 7 := ucast (drop_bit 56 v)]"

definition Uint16 :: "byte list \<Rightarrow> nat \<Rightarrow> 16 word" where
  "Uint16 b a = ucast (b ! a) OR push_bit 8 (ucast (b ! (a + 1)))"

definition Uint32 :: "byte list \<Rightarrow> nat \<Rightarrow> 32 word" where
  "Uint32 b a = ucast (b ! a) OR push_bit 8 (ucast (b ! (a + 1)))
     OR push_bit 16 (ucast (b ! (a + 2))) OR push_bit 24 (ucast (b ! (a + 3)))"

definition Uint64 :: "byte list \<Rightarrow> nat \<Rightarrow> 64 word" where
  "Uint64 b a = ucast (b ! a) OR push_bit 8 (ucast (b ! (a + 1)))
     OR push_bit 16 (ucast (b ! (a + 2))) OR push_bit 24 (ucast (b ! (a + 3)))
     OR push_bit 32 (ucast (b ! (a + 4))) OR push_bit 40 (ucast (b ! (a + 5)))
     OR push_bit 48 (ucast (b ! (a + 6))) OR push_bit 56 (ucast (b ! (a + 7)))"

text \<open>
  The guard shared by the eight helpers, \<open>address < 0 || address+n > int64(len(s.Memory))\<close>:
  \<open>address + n\<close> is an \<open>int64\<close> sum and wraps around.
\<close>

definition outOfBounds :: "State \<Rightarrow> int64 \<Rightarrow> int64 \<Rightarrow> bool" where
  "outOfBounds s address n \<longleftrightarrow>
     sint address < 0 \<or> int (length (Memory s)) < sint (address + n)"

text \<open>
  The slice expression \<open>s.Memory[address : address+n]\<close> panics unless
  \<open>0 \<le> address \<le> address+n \<le> cap\<close>. It is evaluated only past the guard, where
  \<open>0 \<le> address\<close> and \<open>address+n \<le> len \<le> cap\<close> hold, so what is left to fail is
  \<open>address \<le> address+n\<close>, when the sum wrapped around. The index expression
  \<open>s.Memory[address]\<close> panics unless \<open>0 \<le> address < len\<close>.
\<close>

definition sliceBad :: "int64 \<Rightarrow> int64 \<Rightarrow> bool" where
  "sliceBad address n \<longleftrightarrow> sint (address + n) < sint address"

definition indexBad :: "State \<Rightarrow> int64 \<Rightarrow> bool" where
  "indexBad s address \<longleftrightarrow> sint address < 0 \<or> int (length (Memory s)) \<le> sint address"

text \<open>
  The store helpers return Go's \<open>error\<close> (\<open>None\<close> is \<open>nil\<close>) and the state they leave.
\<close>

definition storeWord :: "State \<Rightarrow> int64 \<Rightarrow> int32 \<Rightarrow> (err option \<times> State) result" where
  "storeWord s address v =
     (if outOfBounds s address 4 then Ret (Some MemoryAccessOutOfBounds, s)
      else if sliceBad address 4 then Panic SliceBoundsOutOfRange
      else Ret (None, s\<lparr>Memory := PutUint32 (Memory s) (unat address) v\<rparr>))"

definition storeHalfWord :: "State \<Rightarrow> int64 \<Rightarrow> int16 \<Rightarrow> (err option \<times> State) result" where
  "storeHalfWord s address v =
     (if outOfBounds s address 2 then Ret (Some MemoryAccessOutOfBounds, s)
      else if sliceBad address 2 then Panic SliceBoundsOutOfRange
      else Ret (None, s\<lparr>Memory := PutUint16 (Memory s) (unat address) v\<rparr>))"

definition storeByte :: "State \<Rightarrow> int64 \<Rightarrow> byte \<Rightarrow> (err option \<times> State) result" where
  "storeByte s address v =
     (if outOfBounds s address 1 then Ret (Some MemoryAccessOutOfBounds, s)
      else if indexBad s address then Panic IndexOutOfRange
      else Ret (None, s\<lparr>Memory := (Memory s)[unat address := v]\<rparr>))"

definition storeDoubleWord :: "State \<Rightarrow> int64 \<Rightarrow> int64 \<Rightarrow> (err option \<times> State) result" where
  "storeDoubleWord s address v =
     (if outOfBounds s address 8 then Ret (Some MemoryAccessOutOfBounds, s)
      else if sliceBad address 8 then Panic SliceBoundsOutOfRange
      else Ret (None, s\<lparr>Memory := PutUint64 (Memory s) (unat address) v\<rparr>))"

text \<open>
  The load helpers return an \<open>int64\<close> and no error: 0 when the guard fails,
  \<open>int64(uint32)\<close> (zero extension) for a word, \<open>int64(int16(...))\<close> and
  \<open>int64(int8(...))\<close> (sign extension) for a half-word and a byte.
\<close>

definition loadWord :: "State \<Rightarrow> int64 \<Rightarrow> int64 result" where
  "loadWord s address =
     (if outOfBounds s address 4 then Ret 0
      else if sliceBad address 4 then Panic SliceBoundsOutOfRange
      else Ret (ucast (Uint32 (Memory s) (unat address))))"

definition loadHalfWord :: "State \<Rightarrow> int64 \<Rightarrow> int64 result" where
  "loadHalfWord s address =
     (if outOfBounds s address 2 then Ret 0
      else if sliceBad address 2 then Panic SliceBoundsOutOfRange
      else Ret (scast (Uint16 (Memory s) (unat address))))"

definition loadByte :: "State \<Rightarrow> int64 \<Rightarrow> int64 result" where
  "loadByte s address =
     (if outOfBounds s address 1 then Ret 0
      else if indexBad s address then Panic IndexOutOfRange
      else Ret (scast (Memory s ! unat address)))"

definition loadDoubleWord :: "State \<Rightarrow> int64 \<Rightarrow> int64 result" where
  "loadDoubleWord s address =
     (if outOfBounds s address 8 then Ret 0
      else if sliceBad address 8 then Panic SliceBoundsOutOfRange
      else Ret (Uint64 (Memory s) (unat address)))"

section \<open>Execute\<close>

definition bindR :: "'a result \<Rightarrow> ('a \<Rightarrow> 'b result) \<Rightarrow> 'b result" where
  "bindR m f = (case m of Panic p \<Rightarrow> Panic p | Ret x \<Rightarrow> f x)"

text \<open>
  \<open>s.Regs[r]\<close> as a value and as the target of an assignment. \<open>Regs\<close> is an array of
  eleven entries and \<open>r\<close> a \<open>uint8\<close>: Go checks the index at run time and panics from 11
  on. The source has no check of its own.
\<close>

definition getReg :: "State \<Rightarrow> byte \<Rightarrow> int64 result" where
  "getReg s r = (if unat r < 11 then Ret (Regs s ! unat r) else Panic IndexOutOfRange)"

definition setReg :: "State \<Rightarrow> byte \<Rightarrow> int64 \<Rightarrow> State" where
  "setReg s r v = s\<lparr>Regs := (Regs s)[unat r := v]\<rparr>"

text \<open>\<open>s.Regs[dst] = e\<close>\<close>

definition assign :: "State \<Rightarrow> byte \<Rightarrow> int64 result \<Rightarrow> (err option \<times> State) result" where
  "assign s dst e =
     bindR e (\<lambda>v. if unat dst < 11 then Ret (None, setReg s dst v) else Panic IndexOutOfRange)"

text \<open>\<open>s.Regs[dst] op= e\<close>: both operands are read, then the operation runs.\<close>

definition assignOp ::
  "State \<Rightarrow> byte \<Rightarrow> int64 result \<Rightarrow> (int64 \<Rightarrow> int64 \<Rightarrow> int64 result) \<Rightarrow> (err option \<times> State) result"
where
  "assignOp s dst e f =
     bindR (getReg s dst) (\<lambda>d. bindR e (\<lambda>x. bindR (f d x) (\<lambda>v. Ret (None, setReg s dst v))))"

text \<open>
  Go's \<open>/\<close> and \<open>%\<close> on \<open>int64\<close>: a zero divisor panics, the quotient is truncated
  towards zero, the remainder has the sign of the dividend, and the one overflow
  (the least value divided by -1) wraps around.
\<close>

definition goDiv :: "int64 \<Rightarrow> int64 \<Rightarrow> int64 result" where
  "goDiv a b = (if b = 0 then Panic IntegerDivideByZero else Ret (word_of_int (sint a sdiv sint b)))"

definition goMod :: "int64 \<Rightarrow> int64 \<Rightarrow> int64 result" where
  "goMod a b = (if b = 0 then Panic IntegerDivideByZero else Ret (word_of_int (sint a smod sint b)))"

text \<open>
  Shifts by a \<open>uint64\<close> count: \<open><<\<close> is \<open>push_bit\<close>; \<open>>>\<close> on the signed \<open>int64\<close>
  is the arithmetic shift \<open>signed_drop_bit\<close>, on \<open>uint64\<close> the logical shift \<open>drop_bit\<close>.
  A count of 64 or more is allowed and shifts every bit out.
\<close>

definition imm64 :: "Instruction \<Rightarrow> int64" where
  "imm64 instr = scast (Imm instr)"

definition off64 :: "Instruction \<Rightarrow> int64" where
  "off64 instr = scast (Offset instr)"

text \<open>\<open>s.PC += int(instr.Offset)\<close>\<close>

definition jump :: "State \<Rightarrow> Instruction \<Rightarrow> State" where
  "jump s instr = s\<lparr>PC := PC s + off64 instr\<rparr>"

text \<open>\<open>if s.Regs[dst] rel e { s.PC += int(instr.Offset) }\<close>\<close>

definition branch ::
  "State \<Rightarrow> Instruction \<Rightarrow> int64 result \<Rightarrow> (int64 \<Rightarrow> int64 \<Rightarrow> bool) \<Rightarrow> (err option \<times> State) result"
where
  "branch s instr e rel =
     bindR (getReg s (Dst instr)) (\<lambda>d. bindR e (\<lambda>x.
       Ret (None, if rel d x then jump s instr else s)))"

text \<open>A store called as a statement: the \<open>error\<close> it returns is dropped.\<close>

definition discard :: "(err option \<times> State) result \<Rightarrow> (err option \<times> State) result" where
  "discard r = bindR r (\<lambda>(e, s'). Ret (None, s'))"

text \<open>The effective address \<open>s.Regs[r] + int64(instr.Offset)\<close>.\<close>

definition addr :: "State \<Rightarrow> byte \<Rightarrow> Instruction \<Rightarrow> int64 result" where
  "addr s r instr = bindR (getReg s r) (\<lambda>b. Ret (b + off64 instr))"

text \<open>
  \<open>Execute\<close>, case by case in the order of the source's \<open>switch\<close>. A Go \<open>case\<close> does
  not fall through, so the empty \<open>case ALU64_MUL_REG:\<close> does nothing and returns
  \<open>nil\<close>. The two \<open>fmt\<close> calls print and have no effect on the state.
\<close>

definition Execute :: "State \<Rightarrow> Instruction \<Rightarrow> (err option \<times> State) result" where
  "Execute s instr = (let op = Opcode instr; dst = Dst instr; src = Src instr;
       imm = Ret (imm64 instr); reg = getReg s src in
     if op = ALU64_ADD_IMM then assignOp s dst imm (\<lambda>d x. Ret (d + x))
     else if op = ALU64_ADD_REG then assignOp s dst reg (\<lambda>d x. Ret (d + x))
     else if op = ALU64_SUB_IMM then assignOp s dst imm (\<lambda>d x. Ret (d - x))
     else if op = ALU64_SUB_REG then assignOp s dst reg (\<lambda>d x. Ret (d - x))
     else if op = ALU64_MUL_IMM then assignOp s dst imm (\<lambda>d x. Ret (d * x))
     else if op = ALU64_MUL_REG then Ret (None, s)
     else if op = ALU64_DIV_IMM then assignOp s dst imm goDiv
     else if op = ALU64_DIV_REG then assignOp s dst reg goDiv
     else if op = ALU64_OR_IMM then assignOp s dst imm (\<lambda>d x. Ret (d OR x))
     else if op = ALU64_OR_REG then assignOp s dst reg (\<lambda>d x. Ret (d OR x))
     else if op = ALU64_AND_IMM then assignOp s dst imm (\<lambda>d x. Ret (d AND x))
     else if op = ALU64_AND_REG then assignOp s dst reg (\<lambda>d x. Ret (d AND x))
     else if op = ALU64_LSH_IMM then assignOp s dst imm (\<lambda>d x. Ret (push_bit (unat x) d))
     else if op = ALU64_LSH_REG then assignOp s dst reg (\<lambda>d x. Ret (push_bit (unat x) d))
     else if op = ALU64_RSH_IMM then assignOp s dst imm (\<lambda>d x. Ret (signed_drop_bit (unat x) d))
     else if op = ALU64_RSH_REG then assignOp s dst reg (\<lambda>d x. Ret (signed_drop_bit (unat x) d))
     else if op = ALU64_NEG then assign s dst (bindR (getReg s dst) (\<lambda>d. Ret (- d)))
     else if op = ALU64_MOD_IMM then assignOp s dst imm goMod
     else if op = ALU64_MOD_REG then assignOp s dst reg goMod
     else if op = ALU64_XOR_IMM then assignOp s dst imm (\<lambda>d x. Ret (d XOR x))
     else if op = ALU64_XOR_REG then assignOp s dst reg (\<lambda>d x. Ret (d XOR x))
     else if op = ALU64_MOV_IMM then assign s dst imm
     else if op = ALU64_MOV_REG then assign s dst reg
     else if op = ALU64_ARSH_IMM then
       assign s dst (bindR (getReg s dst) (\<lambda>d. Ret (drop_bit (unat (imm64 instr)) d)))
     else if op = ALU64_ARSH_REG then
       assign s dst (bindR (getReg s dst) (\<lambda>d. bindR reg (\<lambda>x. Ret (drop_bit (unat x) d))))
     else if op = MEM_LDDW then assign s dst imm
     else if op = MEM_LDXW then assign s dst (bindR (addr s src instr) (loadWord s))
     else if op = MEM_LDXH then assign s dst (bindR (addr s src instr) (loadHalfWord s))
     else if op = MEM_LDXB then assign s dst (bindR (addr s src instr) (loadByte s))
     else if op = MEM_LDXDW then assign s dst (bindR (addr s src instr) (loadDoubleWord s))
     else if op = MEM_STW then
       discard (bindR (addr s dst instr) (\<lambda>a. storeWord s a (Imm instr)))
     else if op = MEM_STH then
       discard (bindR (addr s dst instr) (\<lambda>a. storeHalfWord s a (ucast (Imm instr))))
     else if op = MEM_STB then
       discard (bindR (addr s dst instr) (\<lambda>a. storeByte s a (ucast (Imm instr))))
     else if op = MEM_STDW then
       discard (bindR (addr s dst instr) (\<lambda>a. storeDoubleWord s a (imm64 instr)))
     else if op = MEM_STXW then
       discard (bindR (addr s dst instr) (\<lambda>a. bindR reg (\<lambda>x. storeWord s a (ucast x))))
     else if op = MEM_STXH then
       discard (bindR (addr s dst instr) (\<lambda>a. bindR reg (\<lambda>x. storeHalfWord s a (ucast x))))
     else if op = MEM_STXB then
       discard (bindR (addr s dst instr) (\<lambda>a. bindR reg (\<lambda>x. storeByte s a (ucast x))))
     else if op = MEM_STXDW then
       discard (bindR (addr s dst instr) (\<lambda>a. bindR reg (\<lambda>x. storeDoubleWord s a x)))
     else if op = BRANCH_JA then Ret (None, jump s instr)
     else if op = BRANCH_JEQ_IMM then branch s instr imm (\<lambda>d x. d = x)
     else if op = BRANCH_JEQ_REG then branch s instr reg (\<lambda>d x. d = x)
     else if op = BRANCH_JGT_IMM then branch s instr imm (\<lambda>d x. x <s d)
     else if op = BRANCH_JGT_REG then branch s instr reg (\<lambda>d x. x <s d)
     else if op = BRANCH_JGE_IMM then branch s instr imm (\<lambda>d x. x \<le>s d)
     else if op = BRANCH_JGE_REG then branch s instr reg (\<lambda>d x. x \<le>s d)
     else if op = BRANCH_JLT_IMM then branch s instr imm (\<lambda>d x. d <s x)
     else if op = BRANCH_JLT_REG then branch s instr reg (\<lambda>d x. d <s x)
     else if op = BRANCH_JLE_IMM then branch s instr imm (\<lambda>d x. d \<le>s x)
     else if op = BRANCH_JLE_REG then branch s instr reg (\<lambda>d x. d \<le>s x)
     else if op = BRANCH_JSET_IMM then branch s instr imm (\<lambda>d x. d AND x \<noteq> 0)
     else if op = BRANCH_JSET_REG then branch s instr reg (\<lambda>d x. d AND x \<noteq> 0)
     else if op = BRANCH_JNE_IMM then branch s instr imm (\<lambda>d x. d \<noteq> x)
     else if op = BRANCH_JNE_REG then branch s instr reg (\<lambda>d x. d \<noteq> x)
     else if op = BRANCH_JSGT_IMM then branch s instr imm (\<lambda>d x. x <s d)
     else if op = BRANCH_JSGT_REG then branch s instr reg (\<lambda>d x. x <s d)
     else if op = BRANCH_JSGE_IMM then branch s instr imm (\<lambda>d x. x \<le>s d)
     else if op = BRANCH_JSGE_REG then branch s instr reg (\<lambda>d x. x \<le>s d)
     else if op = BRANCH_JSLT_IMM then branch s instr imm (\<lambda>d x. d <s x)
     else if op = BRANCH_JSLT_REG then branch s instr reg (\<lambda>d x. d <s x)
     else if op = BRANCH_JSLE_IMM then branch s instr imm (\<lambda>d x. d \<le>s x)
     else if op = BRANCH_JSLE_REG then branch s instr reg (\<lambda>d x. d \<le>s x)
     else if op = BRANCH_CALL then Ret (None, jump (setReg s 8 (PC s + 1)) instr)
     else if op = BRANCH_EXIT then Ret (Some Exit, s)
     else Ret (Some UnsupportedOpcode, s))"

section \<open>Interpret\<close>

text \<open>
  The literal \<open>Instruction{...}\<close> built from the eight bytes at \<open>i\<close>. A \<open>byte\<close>
  converted to \<open>int16\<close> or \<open>int32\<close> is zero-extended, and the shifts are on that type.
\<close>

definition insnAt :: "byte list \<Rightarrow> nat \<Rightarrow> Instruction" where
  "insnAt bytecode i =
     \<lparr>Opcode = bytecode ! i,
      Dst = bytecode ! (i + 1) AND 0x0F,
      Src = drop_bit 4 (bytecode ! (i + 1)) AND 0x0F,
      Offset = ucast (bytecode ! (i + 2)) OR push_bit 8 (ucast (bytecode ! (i + 3))),
      Imm = ucast (bytecode ! (i + 4)) OR push_bit 8 (ucast (bytecode ! (i + 5)))
        OR push_bit 16 (ucast (bytecode ! (i + 6))) OR push_bit 24 (ucast (bytecode ! (i + 7)))\<rparr>"

text \<open>
  The decoding loop \<open>for i := 0; i < len(bytecode); i += 8\<close>. It reads
  \<open>bytecode[i]\<close> to \<open>bytecode[i+7]\<close> and writes \<open>program[i/8]\<close>, each with Go's index
  check; the loop has no check of its own.
\<close>

function decodeLoop :: "byte list \<Rightarrow> nat \<Rightarrow> Instruction list \<Rightarrow> Instruction list result" where
  "decodeLoop bytecode i program =
     (if i < length bytecode then
        (if i + 7 < length bytecode \<and> i div 8 < length program
         then decodeLoop bytecode (i + 8) (program[i div 8 := insnAt bytecode i])
         else Panic IndexOutOfRange)
      else Ret program)"
  by pat_completeness auto
termination
  by (relation "measure (\<lambda>(bytecode, i, program). length bytecode - i)") auto

declare decodeLoop.simps [simp del]

text \<open>\<open>make([]Instruction, len(bytecode)/8)\<close>: that many zero-valued instructions.\<close>

definition zeroInstruction :: Instruction where
  "zeroInstruction = \<lparr>Opcode = 0, Dst = 0, Src = 0, Offset = 0, Imm = 0\<rparr>"

definition decode :: "byte list \<Rightarrow> Instruction list result" where
  "decode bytecode = decodeLoop bytecode 0 (replicate (length bytecode div 8) zeroInstruction)"

text \<open>
  The loop \<open>for state.PC < len(program)\<close>. It need not end (a jump can go backwards), so
  it is a partial function into \<open>option\<close>: \<open>None\<close> is a run that never leaves the loop.
  A result is the state on leaving the loop, with the error that broke it, or \<open>None\<close>
  when the program counter ran past the program; or the panic that ended the process.
  \<open>program[state.PC]\<close> panics when the program counter is negative.
\<close>

partial_function (option) runLoop ::
  "Instruction list \<Rightarrow> State \<Rightarrow> (err option \<times> State) result option"
where
  "runLoop program state =
     (if sint (PC state) < int (length program) then
        (if sint (PC state) < 0 then Some (Panic IndexOutOfRange)
         else case Execute state (program ! nat (sint (PC state))) of
             Panic p \<Rightarrow> Some (Panic p)
           | Ret (Some e, state') \<Rightarrow> Some (Ret (Some e, state'))
           | Ret (None, state') \<Rightarrow> runLoop program (state'\<lparr>PC := PC state' + 1\<rparr>))
      else Some (Ret (None, state)))"

text \<open>
  \<open>Interpret\<close> returns nothing and prints the registers of the final state; the model
  returns that state and the reason the loop ended.
\<close>

definition Interpret :: "byte list \<Rightarrow> (err option \<times> State) result option" where
  "Interpret bytecode =
     (case decode bytecode of
        Panic p \<Rightarrow> Some (Panic p)
      | Ret program \<Rightarrow> runLoop program zeroState)"

text \<open>The byte slice of \<open>main\<close>.\<close>

definition sampleBytecode :: "byte list" where
  "sampleBytecode =
     [ALU64_MOV_IMM, 0x01, 0x00, 0x00, 0x05, 0x00, 0x00, 0x00,
      ALU64_MOV_IMM, 0x02, 0x00, 0x00, 0x09, 0x00, 0x00, 0x00,
      ALU64_ADD_REG, 0x21, 0x02, 0x00, 0x00, 0x00, 0x00, 0x00,
      ALU64_MOV_REG, 0x10, 0x00, 0x00, 0x00, 0x00, 0x00, 0x00,
      ALU64_SUB_IMM, 0x00, 0x00, 0x00, 0x03, 0x00, 0x00, 0x00,
      BRANCH_EXIT, 0x00, 0x00, 0x00, 0x00, 0x00, 0x00, 0x00]"

section \<open>The sample program of main\<close>

text \<open>
  C1. Interpreting the six instructions of \<open>main\<close> (MOV r1,5; MOV r2,9; ADD r1 += r2;
  MOV r0 = r1; SUB r0 -= 3; EXIT) returns: the loop is left through the \<open>exit\<close> error of
  the sixth instruction, with register 0 holding 11, register 1 holding 14, register 2
  holding 9 and every other register 0.
\<close>

theorem Interpret_sample:
  "Interpret sampleBytecode =
     Some (Ret (Some Exit,
       \<lparr>Memory = [], Regs = [11, 14, 9, 0, 0, 0, 0, 0, 0, 0, 0], PC = 5\<rparr>))"
proof -
  have dec: "decode sampleBytecode =
      Ret [\<lparr>Opcode = ALU64_MOV_IMM, Dst = 1, Src = 0, Offset = 0, Imm = 5\<rparr>,
           \<lparr>Opcode = ALU64_MOV_IMM, Dst = 2, Src = 0, Offset = 0, Imm = 9\<rparr>,
           \<lparr>Opcode = ALU64_ADD_REG, Dst = 1, Src = 2, Offset = 2, Imm = 0\<rparr>,
           \<lparr>Opcode = ALU64_MOV_REG, Dst = 0, Src = 1, Offset = 0, Imm = 0\<rparr>,
           \<lparr>Opcode = ALU64_SUB_IMM, Dst = 0, Src = 0, Offset = 0, Imm = 3\<rparr>,
           \<lparr>Opcode = BRANCH_EXIT, Dst = 0, Src = 0, Offset = 0, Imm = 0\<rparr>]"
    by code_simp
  show ?thesis
    unfolding Interpret_def dec
    by (simp add: runLoop.simps zeroState_def Execute_def assign_def assignOp_def
        bindR_def getReg_def setReg_def imm64_def)
qed

end
